theory Spec2Isabelle
  imports Main
begin

section \<open>Python values, exceptions and the process state\<close>

text \<open>
  The three scripts of the repository are glue around library calls. The embedding keeps
  the scripts' own control flow (sequencing, the \<^verbatim>\<open>with\<close> block, the single
  \<^verbatim>\<open>except\<close> clause, \<^verbatim>\<open>sys.exit\<close>, indexing) and takes the libraries they
  call (\<^verbatim>\<open>nbformat\<close>, \<^verbatim>\<open>pandas\<close>, the operating system's process spawning) as
  parameters: functions that either raise or return.
\<close>

text \<open>A parsed JSON value. Numbers are integers; no property below depends on floats.\<close>

datatype json =
    JNull
  | JBool bool
  | JInt int
  | JStr string
  | JArr "json list"
  | JObj "(string \<times> json) list"

text \<open>A notebook document is the dictionary at the root of the file.\<close>

type_synonym notebook = "(string \<times> json) list"

text \<open>
  Exceptions. \<open>ValidationError\<close> is \<^verbatim>\<open>nbformat.ValidationError\<close> (or a subclass) and
  carries what \<^verbatim>\<open>str(error)\<close> gives.
\<close>

datatype exn =
    ValidationError string
  | FileNotFoundError
  | PermissionError
  | NotJSONError
  | NBFormatError
  | KeyError string
  | IndexError
  | TypeError
  | ValueError
  | OtherError string

text \<open>
  How a call ends: it returns, it raises an exception, or \<^verbatim>\<open>sys.exit\<close> was called.
  \<^verbatim>\<open>SystemExit\<close> is kept apart from \<open>exn\<close>: it is not an \<^verbatim>\<open>Exception\<close>, the
  libraries do not raise it, and no handler of the repository catches it.
\<close>

datatype 'a result = Return 'a | Raise exn | Exit int

fun of_sum :: "exn + 'a \<Rightarrow> 'a result" where
  "of_sum (Inl e) = Raise e"
| "of_sum (Inr x) = Return x"

text \<open>The second argument of \<^verbatim>\<open>nbformat.read\<close>.\<close>

datatype as_version = NO_CONVERT | AsVersion int

text \<open>The calls a script makes to the world outside it, in the order it makes them.\<close>

datatype call =
    CallOpen string
  | CallRead nat as_version
  | CallClose nat
  | CallValidate notebook json
  | CallReadExcel string
  | CallPopen "string list"

text \<open>
  The process and its surroundings: what \<^verbatim>\<open>open(path)\<close> finds at each path (the error
  it raises, or the file's content), the file objects that are open, with their content,
  the text written to standard output, the calls made so far, and the state of the
  operating system's random source. The scripts never read the random source; the
  notebook library does (it gives a fresh random id to a cell that has none), and every
  library call leaves it in a new state.
\<close>

record world =
  files :: "string \<Rightarrow> exn + string"
  open_files :: "(nat \<times> string) list"
  stdout :: string
  calls :: "call list"
  urandom :: nat

type_synonym 'a io = "world \<Rightarrow> 'a result \<times> world"

definition io_return :: "'a \<Rightarrow> 'a io" where
  "io_return x s = (Return x, s)"

definition io_raise :: "exn \<Rightarrow> 'a io" where
  "io_raise e s = (Raise e, s)"

text \<open>Sequencing: the second statement runs only when the first one returns.\<close>

definition io_bind :: "'a io \<Rightarrow> ('a \<Rightarrow> 'b io) \<Rightarrow> 'b io" where
  "io_bind m f s =
     (case m s of
        (Return x, s1) \<Rightarrow> f x s1
      | (Raise e, s1) \<Rightarrow> (Raise e, s1)
      | (Exit c, s1) \<Rightarrow> (Exit c, s1))"

text \<open>
  \<^verbatim>\<open>try: m except ...\<close>: the handler table says which exceptions have a clause.
  An exception without a clause, and \<^verbatim>\<open>SystemExit\<close>, pass through.
\<close>

definition try_except :: "'a io \<Rightarrow> (exn \<Rightarrow> 'a io option) \<Rightarrow> 'a io" where
  "try_except m handler s =
     (case m s of
        (Raise e, s1) \<Rightarrow> (case handler e of Some k \<Rightarrow> k s1 | None \<Rightarrow> (Raise e, s1))
      | (Return x, s1) \<Rightarrow> (Return x, s1)
      | (Exit c, s1) \<Rightarrow> (Exit c, s1))"

definition log_call :: "call \<Rightarrow> world \<Rightarrow> world" where
  "log_call c s = s\<lparr>calls := calls s @ [c]\<rparr>"

definition draw :: "world \<Rightarrow> world" where
  "draw s = s\<lparr>urandom := Suc (urandom s)\<rparr>"

text \<open>\<^verbatim>\<open>print(a, b, ...)\<close>: the arguments separated by one space, then a newline.\<close>

fun join_args :: "string list \<Rightarrow> string" where
  "join_args [] = []"
| "join_args [x] = x"
| "join_args (x # y # ys) = x @ '' '' @ join_args (y # ys)"

definition print :: "string list \<Rightarrow> unit io" where
  "print args s = (Return (), s\<lparr>stdout := stdout s @ join_args args @ [CHR 0x0A]\<rparr>)"

definition sys_exit :: "int \<Rightarrow> 'a io" where
  "sys_exit c s = (Exit c, s)"

text \<open>
  The exit status of the process when the script's entry point ends with the given result:
  the argument of \<^verbatim>\<open>sys.exit\<close>, or 1 after an uncaught exception (with a traceback on
  standard error).
\<close>

fun exit_status :: "'a result \<Rightarrow> int" where
  "exit_status (Return _) = 0"
| "exit_status (Exit c) = c"
| "exit_status (Raise _) = 1"

subsection \<open>Files and the with block\<close>

definition fresh_handle :: "world \<Rightarrow> nat" where
  "fresh_handle s = Suc (Max (set (0 # map fst (open_files s))))"

definition open_file :: "string \<Rightarrow> nat io" where
  "open_file path s =
     (case files s path of
        Inl e \<Rightarrow> (Raise e, log_call (CallOpen path) s)
      | Inr content \<Rightarrow>
          (Return (fresh_handle s),
           log_call (CallOpen path) (s\<lparr>open_files := (fresh_handle s, content) # open_files s\<rparr>)))"

definition close_file :: "nat \<Rightarrow> world \<Rightarrow> world" where
  "close_file h s =
     log_call (CallClose h) (s\<lparr>open_files := filter (\<lambda>(k, _). k \<noteq> h) (open_files s)\<rparr>)"

text \<open>
  \<^verbatim>\<open>with open(path) as f: body\<close>. When \<^verbatim>\<open>open\<close> raises there is no file object. Otherwise
  the body runs, the file is closed however the body ended, and the body's result stands.
\<close>

definition with_open :: "string \<Rightarrow> (nat \<Rightarrow> 'a io) \<Rightarrow> 'a io" where
  "with_open path body s =
     (case open_file path s of
        (Return f, s1) \<Rightarrow> (case body f s1 of (r, s2) \<Rightarrow> (r, close_file f s2))
      | (Raise e, s1) \<Rightarrow> (Raise e, s1)
      | (Exit c, s1) \<Rightarrow> (Exit c, s1))"

text \<open>\<^verbatim>\<open>d[key]\<close> on a dictionary.\<close>

definition getitem :: "(string \<times> 'v) list \<Rightarrow> string \<Rightarrow> 'v io" where
  "getitem d k = (case map_of d k of None \<Rightarrow> io_raise (KeyError k) | Some v \<Rightarrow> io_return v)"

section \<open>validate\_notebooks.py\<close>

text \<open>
  The \<^verbatim>\<open>nbformat\<close> library, as far as the script uses it:
  \<open>nb_read content as_version r\<close> is \<^verbatim>\<open>nbformat.read\<close> on a file object with that content,
  \<open>nb_validate nb version r\<close> is \<^verbatim>\<open>nbformat.validate(nb, version=version)\<close>, each with the
  random source in state \<open>r\<close>. The document \<open>nb_read\<close> returns is the one the script holds
  afterwards, with whatever the library put into it. Both calls may raise any exception,
  a validation error included.
  \<open>validate\<close> below is the body of the command; the \<^verbatim>\<open>click\<close> wrapper that takes
  \<^verbatim>\<open>filename\<close> from the command line is not part of the model.
\<close>

record nbformat_lib =
  nb_read :: "string \<Rightarrow> as_version \<Rightarrow> nat \<Rightarrow> exn + notebook"
  nb_validate :: "notebook \<Rightarrow> json \<Rightarrow> nat \<Rightarrow> exn + unit"

definition nbformat_read :: "nbformat_lib \<Rightarrow> nat \<Rightarrow> as_version \<Rightarrow> notebook io" where
  "nbformat_read lib fp as_version s =
     (case map_of (open_files s) fp of
        None \<Rightarrow> (Raise ValueError, log_call (CallRead fp as_version) s)
      | Some content \<Rightarrow>
          (of_sum (nb_read lib content as_version (urandom s)),
           log_call (CallRead fp as_version) (draw s)))"

definition nbformat_validate :: "nbformat_lib \<Rightarrow> notebook \<Rightarrow> json \<Rightarrow> unit io" where
  "nbformat_validate lib nb version s =
     (of_sum (nb_validate lib nb version (urandom s)),
      log_call (CallValidate nb version) (draw s))"

definition is_notebook_valid :: "nbformat_lib \<Rightarrow> string \<Rightarrow> unit io" where
  "is_notebook_valid lib path =
     io_bind (with_open path (\<lambda>file_in. nbformat_read lib file_in NO_CONVERT))
       (\<lambda>notebook. io_bind (getitem notebook ''nbformat'')
         (\<lambda>format_version. nbformat_validate lib notebook format_version))"

definition validate :: "nbformat_lib \<Rightarrow> string \<Rightarrow> unit io" where
  "validate lib filename =
     try_except
       (io_bind (is_notebook_valid lib filename)
         (\<lambda>_. io_bind (print [filename @ '' is valid''])
           (\<lambda>_. sys_exit 0)))
       (\<lambda>ex. case ex of
          ValidationError error \<Rightarrow>
            Some (io_bind (print [filename, error]) (\<lambda>_. sys_exit 1))
        | _ \<Rightarrow> None)"

text \<open>Whether the clause \<^verbatim>\<open>except nbformat.ValidationError\<close> matches an exception.\<close>

fun is_validation_error :: "exn \<Rightarrow> bool" where
  "is_validation_error (ValidationError _) = True"
| "is_validation_error _ = False"

section \<open>notebooks/demo.py\<close>

text \<open>
  The values found in the dictionaries of \<^verbatim>\<open>FileUpload.value\<close>: strings (name, type),
  integers (size) and bytes (content).
\<close>

datatype pyval = PyStr string | PyInt int | PyBytes string

type_synonym file_info = "(string \<times> pyval) list"

record file_upload =
  uploader_value :: "file_info list"

text \<open>\<^verbatim>\<open>xs[0]\<close> on a sequence.\<close>

definition index0 :: "'a list \<Rightarrow> 'a io" where
  "index0 xs = (case xs of [] \<Rightarrow> io_raise IndexError | x # _ \<Rightarrow> io_return x)"

text \<open>\<^verbatim>\<open>io.BytesIO(x)\<close> takes a bytes-like object.\<close>

definition bytes_io :: "pyval \<Rightarrow> string io" where
  "bytes_io v = (case v of PyBytes b \<Rightarrow> io_return b | _ \<Rightarrow> io_raise TypeError)"

text \<open>\<^verbatim>\<open>pd.read_excel\<close> is a parameter: it raises or returns a data frame.\<close>

definition pd_read_excel :: "(string \<Rightarrow> exn + 'df) \<Rightarrow> string \<Rightarrow> 'df io" where
  "pd_read_excel read_excel buf s = (of_sum (read_excel buf), log_call (CallReadExcel buf) s)"

definition read_uploaded_file :: "(string \<Rightarrow> exn + 'df) \<Rightarrow> file_upload \<Rightarrow> 'df io" where
  "read_uploaded_file read_excel uploader =
     io_bind (if \<not> length (uploader_value uploader) = 1
              then print [''This example code only works for a single uploaded file'']
              else io_return ())
       (\<lambda>_. io_bind (index0 (uploader_value uploader))
         (\<lambda>file_info. io_bind (print [''Reading data...''])
           (\<lambda>_. io_bind (getitem file_info ''content'')
             (\<lambda>content. io_bind (bytes_io content)
               (\<lambda>buf. pd_read_excel read_excel buf)))))"

section \<open>bokeh\_server.py\<close>

text \<open>
  \<^verbatim>\<open>subprocess.Popen(args)\<close>: the operating system either fails to start the program
  or gives the child's process id. \<^verbatim>\<open>Popen\<close> returns at once; the child runs on.
\<close>

definition Popen :: "(string list \<Rightarrow> exn + nat) \<Rightarrow> string list \<Rightarrow> nat io" where
  "Popen spawn args s = (of_sum (spawn args), log_call (CallPopen args) s)"

definition load_jupyter_server_extension :: "(string list \<Rightarrow> exn + nat) \<Rightarrow> 'a \<Rightarrow> unit io" where
  "load_jupyter_server_extension spawn serverapp =
     io_bind (Popen spawn [''bokeh'', ''serve'', ''bokeh-app'', ''--allow-websocket-origin=*''])
       (\<lambda>_. io_return ())"

section \<open>Observations\<close>

text \<open>What a run that took the world from \<open>s\<close> to \<open>s'\<close> wrote and which calls it made.\<close>

definition printed :: "world \<Rightarrow> world \<Rightarrow> string" where
  "printed s s' = drop (length (stdout s)) (stdout s')"

definition new_calls :: "world \<Rightarrow> world \<Rightarrow> call list" where
  "new_calls s s' = drop (length (calls s)) (calls s')"

text \<open>The number of lines of a text: the number of its newline characters.\<close>

definition line_count :: "string \<Rightarrow> nat" where
  "line_count txt = length (filter (\<lambda>c. c = CHR 0x0A) txt)"

text \<open>
  The sequence of steps the specification prescribes for \<open>is_notebook_valid\<close>, as a
  predicate on the calls of one run: open the path, read with \<open>NO_CONVERT\<close> from the file
  object just opened, close it, and check the document against the version found under
  its key \<^verbatim>\<open>nbformat\<close>. A step that raises ends the run, so a run is a prefix of the
  sequence; nothing is called twice and nothing else is called.
\<close>

fun linear_sequence :: "string \<Rightarrow> call list \<Rightarrow> bool" where
  "linear_sequence path [CallOpen p] = (p = path)"
| "linear_sequence path [CallOpen p, CallRead f v, CallClose f'] =
     (p = path \<and> v = NO_CONVERT \<and> f' = f)"
| "linear_sequence path [CallOpen p, CallRead f v, CallClose f', CallValidate nb version] =
     (p = path \<and> v = NO_CONVERT \<and> f' = f \<and> map_of nb ''nbformat'' = Some version)"
| "linear_sequence path _ = False"

text \<open>
  The same sequence as a function of what the steps give: the result of \<open>open\<close>, then
  the library's reader and schema check, with the random source in state \<open>r\<close> at the
  start.
\<close>

definition linear_result :: "nbformat_lib \<Rightarrow> exn + string \<Rightarrow> nat \<Rightarrow> unit result" where
  "linear_result lib file r =
     (case file of
        Inl e \<Rightarrow> Raise e
      | Inr content \<Rightarrow>
          (case nb_read lib content NO_CONVERT r of
             Inl e \<Rightarrow> Raise e
           | Inr nb \<Rightarrow>
               (case map_of nb ''nbformat'' of
                  None \<Rightarrow> Raise (KeyError ''nbformat'')
                | Some version \<Rightarrow> of_sum (nb_validate lib nb version (Suc r)))))"

section \<open>A stand-in library and its documents\<close>

text \<open>
  A small stand-in for \<^verbatim>\<open>nbformat\<close>, to run the script on concrete files. It knows five
  contents and answers on them the way the library does:
  \<^item> the valid document of the specification's first scenario is read and accepted;
  \<^item> the document of the second scenario, whose only cell has a type and nothing else, is
    refused by the reader itself, with a validation error of one line about the missing
    key;
  \<^item> a version-4.5 document whose only cell is a markdown cell without \<^verbatim>\<open>source\<close> and
    without \<^verbatim>\<open>id\<close> is read, the reader giving the cell a fresh random id; the schema check
    then refuses it, with a description of several lines that quotes the cell, id included;
  \<^item> a version-2 document is read, and the schema check refuses it because there is no
    schema for version 2;
  \<^item> anything else is not JSON.
  The wording of the messages stands in for the library's.
\<close>

definition good_ipynb :: string where
  "good_ipynb = ''{\"nbformat\": 4, \"nbformat_minor\": 5, \"cells\": [], \"metadata\": {}}''"

definition bad_ipynb :: string where
  "bad_ipynb =
     ''{\"nbformat\": 4, \"nbformat_minor\": 5, \"cells\": [{\"cell_type\": \"bogus\"}], \"metadata\": {}}''"

definition nosource_ipynb :: string where
  "nosource_ipynb =
     ''{\"nbformat\": 4, \"nbformat_minor\": 5, \"cells\": [{\"cell_type\": \"markdown\", \"metadata\": {}}], \"metadata\": {}}''"

definition v2_ipynb :: string where
  "v2_ipynb = ''{\"nbformat\": 2, \"nbformat_minor\": 0, \"worksheets\": [], \"metadata\": {}}''"

definition good_nb :: notebook where
  "good_nb = [(''nbformat'', JInt 4), (''nbformat_minor'', JInt 5), (''cells'', JArr []),
              (''metadata'', JObj [])]"

definition nosource_nb :: "string \<Rightarrow> notebook" where
  "nosource_nb cell_id =
     [(''nbformat'', JInt 4), (''nbformat_minor'', JInt 5),
      (''cells'', JArr [JObj [(''cell_type'', JStr ''markdown''), (''id'', JStr cell_id),
                               (''metadata'', JObj [])]]),
      (''metadata'', JObj [])]"

definition v2_nb :: notebook where
  "v2_nb = [(''nbformat'', JInt 2), (''nbformat_minor'', JInt 0), (''worksheets'', JArr []),
            (''metadata'', JObj [])]"

text \<open>A cell id from the state of the random source: eight hexadecimal digits.\<close>

definition hex_digit :: "nat \<Rightarrow> char" where
  "hex_digit n = ''0123456789abcdef'' ! (n mod 16)"

definition stub_cell_id :: "nat \<Rightarrow> string" where
  "stub_cell_id r = map (\<lambda>i. hex_digit (r div 16 ^ i)) [7, 6, 5, 4, 3, 2, 1, 0]"

definition missing_key_message :: string where
  "missing_key_message = ''The notebook is invalid and is missing an expected key: metadata''"

definition no_schema_message :: string where
  "no_schema_message = ''No schema for validating v2 notebooks''"

definition missing_source_message :: "string \<Rightarrow> string" where
  "missing_source_message cell_id =
     [CHR 0x27] @ ''source' is a required property\<newline>\<newline>Failed validating 'required' in markdown_cell:\<newline>\<newline>On instance['cells'][0]:\<newline>{'cell_type': 'markdown', 'id': '' @
     [CHR 0x27] @ cell_id @ [CHR 0x27] @ '', 'metadata': {}}''"

definition stub_read :: "string \<Rightarrow> as_version \<Rightarrow> nat \<Rightarrow> exn + notebook" where
  "stub_read content v r =
     (if content = good_ipynb then Inr good_nb
      else if content = bad_ipynb then Inl (ValidationError missing_key_message)
      else if content = nosource_ipynb then Inr (nosource_nb (stub_cell_id r))
      else if content = v2_ipynb then Inr v2_nb
      else Inl NotJSONError)"

fun has_source :: "json \<Rightarrow> bool" where
  "has_source (JObj c) = (case map_of c ''source'' of None \<Rightarrow> False | Some _ \<Rightarrow> True)"
| "has_source _ = False"

fun id_of_cell :: "json \<Rightarrow> string" where
  "id_of_cell (JObj c) = (case map_of c ''id'' of Some (JStr i) \<Rightarrow> i | _ \<Rightarrow> [])"
| "id_of_cell _ = []"

definition stub_validate :: "notebook \<Rightarrow> json \<Rightarrow> nat \<Rightarrow> exn + unit" where
  "stub_validate nb version r =
     (if version = JInt 4 then
        (case map_of nb ''cells'' of
           Some (JArr cells) \<Rightarrow>
             (case filter (\<lambda>c. \<not> has_source c) cells of
                [] \<Rightarrow> Inr ()
              | c # _ \<Rightarrow> Inl (ValidationError (missing_source_message (id_of_cell c))))
         | _ \<Rightarrow> Inl (ValidationError ''cells is a required property''))
      else Inl (ValidationError no_schema_message))"

definition stub_lib :: nbformat_lib where
  "stub_lib = \<lparr>nb_read = stub_read, nb_validate = stub_validate\<rparr>"

text \<open>
  The files: one for each content above, a file that is not a notebook, and a valid
  notebook whose name contains a line break. No other path exists.
\<close>

definition stub_files :: "string \<Rightarrow> exn + string" where
  "stub_files path =
     (if path = ''good.ipynb'' then Inr good_ipynb
      else if path = ''bad.ipynb'' then Inr bad_ipynb
      else if path = ''nosource.ipynb'' then Inr nosource_ipynb
      else if path = ''v2.ipynb'' then Inr v2_ipynb
      else if path = ''broken.ipynb'' then Inr ''not a notebook''
      else if path = ''my\<newline>notebook.ipynb'' then Inr good_ipynb
      else Inl FileNotFoundError)"


text \<open>The world at the start of a process: nothing open, nothing written, nothing called.\<close>

definition initial_world :: "(string \<Rightarrow> exn + string) \<Rightarrow> world" where
  "initial_world fs = \<lparr>files = fs, open_files = [], stdout = [], calls = [], urandom = 0\<rparr>"



text \<open>
  The world after the \<^verbatim>\<open>with\<close> block of \<open>is_notebook_valid\<close> ran on a path that could be
  opened: the file was opened, read and closed, the read drew on the random source, and
  nothing else changed.
\<close>

definition after_read :: "string \<Rightarrow> world \<Rightarrow> world" where
  "after_read path s =
     s\<lparr>calls := calls s @ [CallOpen path, CallRead (fresh_handle s) NO_CONVERT,
                            CallClose (fresh_handle s)],
       urandom := Suc (urandom s)\<rparr>"

text \<open>The world after the schema check that follows.\<close>

definition after_check :: "notebook \<Rightarrow> json \<Rightarrow> string \<Rightarrow> world \<Rightarrow> world" where
  "after_check nb version path s =
     s\<lparr>calls := calls s @ [CallOpen path, CallRead (fresh_handle s) NO_CONVERT,
                            CallClose (fresh_handle s), CallValidate nb version],
       urandom := Suc (Suc (urandom s))\<rparr>"

section \<open>Facts about the embedding\<close>

lemma fresh_handle_notin: "(k, c) \<in> set (open_files s) \<Longrightarrow> k \<noteq> fresh_handle s"
proof -
  assume "(k, c) \<in> set (open_files s)"
  then have "k \<in> set (0 # map fst (open_files s))" by force
  then have "k \<le> Max (set (0 # map fst (open_files s)))" by (intro Max_ge) auto
  then show ?thesis by (simp add: fresh_handle_def)
qed

lemma close_fresh: "filter (\<lambda>(k, _). k \<noteq> fresh_handle s) (open_files s) = open_files s"
  by (rule filter_True) (auto dest: fresh_handle_notin)

lemma with_open_read_failed:
  "files s path = Inl e \<Longrightarrow>
   with_open path (\<lambda>f. nbformat_read lib f NO_CONVERT) s = (Raise e, log_call (CallOpen path) s)"
  by (simp add: with_open_def open_file_def)

lemma with_open_read_opened:
  "files s path = Inr c \<Longrightarrow>
   with_open path (\<lambda>f. nbformat_read lib f NO_CONVERT) s =
     (of_sum (nb_read lib c NO_CONVERT (urandom s)), after_read path s)"
  by (simp add: with_open_def open_file_def nbformat_read_def close_file_def log_call_def
      draw_def after_read_def close_fresh)

lemma inv_open_failed:
  "files s path = Inl e \<Longrightarrow>
   is_notebook_valid lib path s = (Raise e, log_call (CallOpen path) s)"
  by (simp add: is_notebook_valid_def io_bind_def with_open_read_failed)

lemma inv_read_failed:
  "files s path = Inr c \<Longrightarrow> nb_read lib c NO_CONVERT (urandom s) = Inl e \<Longrightarrow>
   is_notebook_valid lib path s = (Raise e, after_read path s)"
  by (simp add: is_notebook_valid_def io_bind_def with_open_read_opened)

lemma inv_no_version:
  "files s path = Inr c \<Longrightarrow> nb_read lib c NO_CONVERT (urandom s) = Inr nb \<Longrightarrow>
   map_of nb ''nbformat'' = None \<Longrightarrow>
   is_notebook_valid lib path s = (Raise (KeyError ''nbformat''), after_read path s)"
  by (simp add: is_notebook_valid_def io_bind_def with_open_read_opened getitem_def io_raise_def)

lemma inv_checked:
  "files s path = Inr c \<Longrightarrow> nb_read lib c NO_CONVERT (urandom s) = Inr nb \<Longrightarrow>
   map_of nb ''nbformat'' = Some v \<Longrightarrow>
   is_notebook_valid lib path s =
     (of_sum (nb_validate lib nb v (Suc (urandom s))), after_check nb v path s)"
  by (simp add: is_notebook_valid_def io_bind_def with_open_read_opened getitem_def
      io_return_def nbformat_validate_def after_read_def after_check_def log_call_def draw_def)

lemma inv_cases:
  obtains (open_failed) e where "files s path = Inl e"
      "is_notebook_valid lib path s = (Raise e, log_call (CallOpen path) s)"
  | (read_failed) c e where "files s path = Inr c"
      "nb_read lib c NO_CONVERT (urandom s) = Inl e"
      "is_notebook_valid lib path s = (Raise e, after_read path s)"
  | (no_version) c nb where "files s path = Inr c"
      "nb_read lib c NO_CONVERT (urandom s) = Inr nb"
      "map_of nb ''nbformat'' = None"
      "is_notebook_valid lib path s = (Raise (KeyError ''nbformat''), after_read path s)"
  | (checked) c nb v where "files s path = Inr c"
      "nb_read lib c NO_CONVERT (urandom s) = Inr nb"
      "map_of nb ''nbformat'' = Some v"
      "is_notebook_valid lib path s =
         (of_sum (nb_validate lib nb v (Suc (urandom s))), after_check nb v path s)"
proof (cases "files s path")
  case (Inl e)
  then show ?thesis using open_failed inv_open_failed by blast
next
  case (Inr c)
  show ?thesis
  proof (cases "nb_read lib c NO_CONVERT (urandom s)")
    case (Inl e)
    with Inr show ?thesis using read_failed inv_read_failed by blast
  next
    case nb: (Inr nb)
    show ?thesis
    proof (cases "map_of nb ''nbformat''")
      case None
      with Inr nb show ?thesis using no_version inv_no_version by blast
    next
      case (Some v)
      with Inr nb show ?thesis using checked inv_checked by blast
    qed
  qed
qed

lemma inv_never_exits: "fst (is_notebook_valid lib path s) \<noteq> Exit c"
proof (cases rule: inv_cases [of s path lib])
  case (checked c nb v)
  then show ?thesis by (cases "nb_validate lib nb v (Suc (urandom s))") simp_all
qed simp_all

lemma inv_stdout: "stdout (snd (is_notebook_valid lib path s)) = stdout s"
  by (cases rule: inv_cases [of s path lib])
    (simp_all add: log_call_def after_read_def after_check_def)


lemma inv_open_files: "open_files (snd (is_notebook_valid lib path s)) = open_files s"
  by (cases rule: inv_cases [of s path lib])
    (simp_all add: log_call_def after_read_def after_check_def)

lemma inv_result:
  "fst (is_notebook_valid lib path s) = linear_result lib (files s path) (urandom s)"
  by (cases rule: inv_cases [of s path lib]) (simp_all add: linear_result_def)

text \<open>The three ways \<open>validate\<close> ends, by how \<open>is_notebook_valid\<close> ended.\<close>

lemma validate_returned:
  "is_notebook_valid lib filename s = (Return (), s1) \<Longrightarrow>
   validate lib filename s =
     (Exit 0, s1\<lparr>stdout := stdout s1 @ filename @ '' is valid'' @ [CHR 0x0A]\<rparr>)"
  by (simp add: validate_def try_except_def io_bind_def print_def sys_exit_def)

lemma validate_caught:
  "is_notebook_valid lib filename s = (Raise (ValidationError msg), s1) \<Longrightarrow>
   validate lib filename s =
     (Exit 1, s1\<lparr>stdout := stdout s1 @ filename @ '' '' @ msg @ [CHR 0x0A]\<rparr>)"
  by (simp add: validate_def try_except_def io_bind_def print_def sys_exit_def)

lemma validate_uncaught:
  "is_notebook_valid lib filename s = (Raise e, s1) \<Longrightarrow> \<not> is_validation_error e \<Longrightarrow>
   validate lib filename s = (Raise e, s1)"
  by (cases e) (simp_all add: validate_def try_except_def io_bind_def)



lemma after_read_calls:
  "new_calls s (after_read path s) =
     [CallOpen path, CallRead (fresh_handle s) NO_CONVERT, CallClose (fresh_handle s)]"
  by (simp add: new_calls_def after_read_def)

lemma after_check_calls:
  "new_calls s (after_check nb v path s) =
     [CallOpen path, CallRead (fresh_handle s) NO_CONVERT, CallClose (fresh_handle s),
      CallValidate nb v]"
  by (simp add: new_calls_def after_check_def)

lemma open_failed_calls: "new_calls s (log_call (CallOpen path) s) = [CallOpen path]"
  by (simp add: new_calls_def log_call_def)

lemma line_count_append: "line_count (xs @ ys) = line_count xs + line_count ys"
  by (simp add: line_count_def)

lemma line_count_newline: "line_count [CHR 0x0A] = 1"
  by (simp add: line_count_def)

text \<open>The stand-in library on its documents.\<close>

lemma initial_urandom: "urandom (initial_world fs) = 0"
  by (simp add: initial_world_def)

lemma initial_fresh_handle: "fresh_handle (initial_world fs) = 1"
  by (simp add: fresh_handle_def initial_world_def)

lemma stub_good_file: "files (initial_world stub_files) ''good.ipynb'' = Inr good_ipynb"
  by (simp add: initial_world_def stub_files_def)

lemma stub_bad_file: "files (initial_world stub_files) ''bad.ipynb'' = Inr bad_ipynb"
  by (simp add: initial_world_def stub_files_def)

lemma stub_nosource_file:
  "files (initial_world stub_files) ''nosource.ipynb'' = Inr nosource_ipynb"
  by (simp add: initial_world_def stub_files_def)

lemma stub_v2_file: "files (initial_world stub_files) ''v2.ipynb'' = Inr v2_ipynb"
  by (simp add: initial_world_def stub_files_def)

lemma stub_broken_file: "files (initial_world stub_files) ''broken.ipynb'' = Inr ''not a notebook''"
  by (simp add: initial_world_def stub_files_def)

lemma stub_newline_file:
  "files (initial_world stub_files) ''my\<newline>notebook.ipynb'' = Inr good_ipynb"
  by (simp add: initial_world_def stub_files_def)

lemma stub_missing_file: "files (initial_world stub_files) ''missing.ipynb'' = Inl FileNotFoundError"
  by (simp add: initial_world_def stub_files_def)

lemma stub_good_read: "nb_read stub_lib good_ipynb NO_CONVERT r = Inr good_nb"
  by (simp add: stub_lib_def stub_read_def)

lemma stub_bad_read:
  "nb_read stub_lib bad_ipynb NO_CONVERT r = Inl (ValidationError missing_key_message)"
  by (simp add: stub_lib_def stub_read_def good_ipynb_def bad_ipynb_def)

lemma stub_nosource_read:
  "nb_read stub_lib nosource_ipynb NO_CONVERT r = Inr (nosource_nb (stub_cell_id r))"
  by (simp add: stub_lib_def stub_read_def good_ipynb_def bad_ipynb_def nosource_ipynb_def)

lemma stub_v2_read: "nb_read stub_lib v2_ipynb NO_CONVERT r = Inr v2_nb"
  by (simp add: stub_lib_def stub_read_def good_ipynb_def bad_ipynb_def nosource_ipynb_def
      v2_ipynb_def)

lemma stub_broken_read: "nb_read stub_lib ''not a notebook'' NO_CONVERT r = Inl NotJSONError"
  by (simp add: stub_lib_def stub_read_def good_ipynb_def bad_ipynb_def nosource_ipynb_def
      v2_ipynb_def)

lemma stub_good_version: "map_of good_nb ''nbformat'' = Some (JInt 4)"
  by (simp add: good_nb_def)

lemma stub_nosource_version: "map_of (nosource_nb i) ''nbformat'' = Some (JInt 4)"
  by (simp add: nosource_nb_def)

lemma stub_v2_version: "map_of v2_nb ''nbformat'' = Some (JInt 2)"
  by (simp add: v2_nb_def)

lemma stub_good_check: "nb_validate stub_lib good_nb (JInt 4) r = Inr ()"
  by (simp add: stub_lib_def stub_validate_def good_nb_def)

lemma stub_nosource_check:
  "nb_validate stub_lib (nosource_nb i) (JInt 4) r =
     Inl (ValidationError (missing_source_message i))"
  by (simp add: stub_lib_def stub_validate_def nosource_nb_def)

lemma stub_v2_check:
  "nb_validate stub_lib v2_nb (JInt 2) r = Inl (ValidationError no_schema_message)"
  by (simp add: stub_lib_def stub_validate_def)

lemma stub_cell_id_0: "stub_cell_id 0 = ''00000000''"
  by (simp add: stub_cell_id_def hex_digit_def)


lemma missing_source_message_lines: "line_count (missing_source_message i) = 5 + line_count i"
  by (simp add: line_count_def missing_source_message_def)


text \<open>Runs of the stand-in used by several examples below.\<close>

lemma stub_good_inv:
  "is_notebook_valid stub_lib ''good.ipynb'' (initial_world stub_files) =
     (Return (), after_check good_nb (JInt 4) ''good.ipynb'' (initial_world stub_files))"
  using inv_checked [OF stub_good_file stub_good_read stub_good_version]
    stub_good_check [of "Suc (urandom (initial_world stub_files))"]
  by simp

lemma stub_bad_inv:
  "is_notebook_valid stub_lib ''bad.ipynb'' (initial_world stub_files) =
     (Raise (ValidationError missing_key_message), after_read ''bad.ipynb'' (initial_world stub_files))"
  using inv_read_failed [OF stub_bad_file stub_bad_read] by simp

lemma stub_nosource_inv:
  "is_notebook_valid stub_lib ''nosource.ipynb'' (initial_world stub_files) =
     (Raise (ValidationError (missing_source_message ''00000000'')),
      after_check (nosource_nb ''00000000'') (JInt 4) ''nosource.ipynb'' (initial_world stub_files))"
  using inv_checked [OF stub_nosource_file stub_nosource_read stub_nosource_version]
    stub_nosource_check [of "''00000000''" "Suc (urandom (initial_world stub_files))"]
  by (simp add: initial_urandom stub_cell_id_0)

lemma stub_v2_inv:
  "is_notebook_valid stub_lib ''v2.ipynb'' (initial_world stub_files) =
     (Raise (ValidationError no_schema_message),
      after_check v2_nb (JInt 2) ''v2.ipynb'' (initial_world stub_files))"
  using inv_checked [OF stub_v2_file stub_v2_read stub_v2_version]
    stub_v2_check [of "Suc (urandom (initial_world stub_files))"]
  by simp

lemma stub_nosource_run:
  "validate stub_lib ''nosource.ipynb'' (initial_world stub_files) =
     (Exit 1,
      (after_check (nosource_nb ''00000000'') (JInt 4) ''nosource.ipynb'' (initial_world stub_files))
        \<lparr>stdout := ''nosource.ipynb '' @ missing_source_message ''00000000'' @ [CHR 0x0A]\<rparr>)"
  using validate_caught [OF stub_nosource_inv]
  by (simp add: after_check_def initial_world_def)



section \<open>The notebook validator\<close>

text \<open>
  C1. When the file can be opened, its content parses as a notebook document, the document
  declares a version under \<^verbatim>\<open>nbformat\<close> and the schema check for that version accepts
  it, \<open>validate\<close> writes the line \<^verbatim>\<open><filename> is valid\<close> to standard output and the
  process ends with exit status 0.
\<close>

theorem validate_valid_document:
  assumes "files s filename = Inr content"
    and "nb_read lib content NO_CONVERT (urandom s) = Inr nb"
    and "map_of nb ''nbformat'' = Some version"
    and "nb_validate lib nb version (Suc (urandom s)) = Inr ()"
  shows "fst (validate lib filename s) = Exit 0 \<and>
         exit_status (fst (validate lib filename s)) = 0 \<and>
         printed s (snd (validate lib filename s)) = filename @ '' is valid'' @ [CHR 0x0A]"
proof -
  have "is_notebook_valid lib filename s = (Return (), after_check nb version filename s)"
    using inv_checked [OF assms(1-3)] assms(4) by simp
  from validate_returned [OF this] show ?thesis
    by (simp add: printed_def after_check_def)
qed

theorem validate_valid_document_witness:
  "files (initial_world stub_files) ''good.ipynb'' = Inr good_ipynb \<and>
   nb_read stub_lib good_ipynb NO_CONVERT (urandom (initial_world stub_files)) = Inr good_nb \<and>
   map_of good_nb ''nbformat'' = Some (JInt 4) \<and>
   nb_validate stub_lib good_nb (JInt 4) (Suc (urandom (initial_world stub_files))) = Inr () \<and>
   fst (validate stub_lib ''good.ipynb'' (initial_world stub_files)) = Exit 0 \<and>
   exit_status (fst (validate stub_lib ''good.ipynb'' (initial_world stub_files))) = 0 \<and>
   printed (initial_world stub_files)
     (snd (validate stub_lib ''good.ipynb'' (initial_world stub_files))) =
     ''good.ipynb is valid\<newline>''"
  using validate_valid_document [OF stub_good_file stub_good_read stub_good_version stub_good_check]
    stub_good_file stub_good_read stub_good_version stub_good_check
  by simp



text \<open>
  C3 as stated does not hold: a document that declares a version for which the library has
  no schema is one of the failures the claim lists as propagating, but the library reports
  it as a validation error, so \<open>validate\<close> catches it and the process leaves by the exit-1
  path with a message. So it is for the version-2 document.
\<close>

theorem validate_unsupported_version_counterexample:
  "files (initial_world stub_files) ''v2.ipynb'' = Inr v2_ipynb \<and>
   nb_read stub_lib v2_ipynb NO_CONVERT 0 = Inr v2_nb \<and>
   map_of v2_nb ''nbformat'' = Some (JInt 2) \<and>
   nb_validate stub_lib v2_nb (JInt 2) 1 = Inl (ValidationError no_schema_message) \<and>
   fst (validate stub_lib ''v2.ipynb'' (initial_world stub_files)) = Exit 1 \<and>
   printed (initial_world stub_files)
     (snd (validate stub_lib ''v2.ipynb'' (initial_world stub_files))) =
     ''v2.ipynb No schema for validating v2 notebooks\<newline>''"
  using validate_caught [OF stub_v2_inv] stub_v2_file stub_v2_read stub_v2_version stub_v2_check
  by (simp add: printed_def after_check_def initial_world_def no_schema_message_def)

text \<open>
  C3, amended. \<open>validate\<close> catches exactly one type of exception, the validation error,
  wherever in \<open>is_notebook_valid\<close> it is raised. Any exception of another type (raised by
  \<^verbatim>\<open>open\<close>, by the reader, by the lookup of the version or by the schema check) leaves
  \<open>validate\<close> as it was raised: nothing is printed and the exit status is not 0. Conversely
  an exception that leaves \<open>validate\<close> is never a validation error. In particular a file
  that does not exist is not reported as valid.
\<close>

theorem validate_catches_only_validation_error:
  "(fst (is_notebook_valid lib filename s) = Raise e \<and> \<not> is_validation_error e \<longrightarrow>
      validate lib filename s = is_notebook_valid lib filename s \<and>
      printed s (snd (validate lib filename s)) = [] \<and>
      exit_status (fst (validate lib filename s)) \<noteq> 0) \<and>
   (fst (validate lib filename s) = Raise e \<longrightarrow>
      fst (is_notebook_valid lib filename s) = Raise e \<and> \<not> is_validation_error e) \<and>
   (files s filename = Inl FileNotFoundError \<longrightarrow>
      fst (validate lib filename s) = Raise FileNotFoundError \<and>
      printed s (snd (validate lib filename s)) = [])"
proof (intro conjI impI)
  obtain r t where rt: "is_notebook_valid lib filename s = (r, t)"
    by (cases "is_notebook_valid lib filename s")
  have out: "stdout t = stdout s" using inv_stdout [of lib filename s] rt by simp
  {
    assume a: "fst (is_notebook_valid lib filename s) = Raise e \<and> \<not> is_validation_error e"
    with rt have v: "validate lib filename s = (Raise e, t)"
      using validate_uncaught [of lib filename s e t] by simp
    show "validate lib filename s = is_notebook_valid lib filename s" using v a rt by simp
    show "printed s (snd (validate lib filename s)) = []" using v out by (simp add: printed_def)
    show "exit_status (fst (validate lib filename s)) \<noteq> 0" using v by simp
  }
  {
    assume a: "fst (validate lib filename s) = Raise e"
    have "r = Raise e \<and> \<not> is_validation_error e"
    proof (cases r)
      case (Return u)
      then show ?thesis using validate_returned [of lib filename s t] rt a by simp
    next
      case (Raise e')
      show ?thesis
      proof (cases "is_validation_error e'")
        case True
        then obtain msg where "e' = ValidationError msg" by (cases e') simp_all
        with Raise show ?thesis using validate_caught [of lib filename s msg t] rt a by simp
      next
        case False
        with Raise show ?thesis using validate_uncaught [of lib filename s e' t] rt a by simp
      qed
    next
      case (Exit c)
      then show ?thesis using inv_never_exits [of lib filename s c] rt by simp
    qed
    then show "fst (is_notebook_valid lib filename s) = Raise e" and "\<not> is_validation_error e"
      using rt by simp_all
  }
  {
    assume a: "files s filename = Inl FileNotFoundError"
    have "validate lib filename s = (Raise FileNotFoundError, log_call (CallOpen filename) s)"
      using validate_uncaught [OF inv_open_failed [OF a]] by simp
    then show "fst (validate lib filename s) = Raise FileNotFoundError"
      and "printed s (snd (validate lib filename s)) = []"
      by (simp_all add: printed_def log_call_def)
  }
qed

theorem validate_catches_only_validation_error_witness:
  "fst (is_notebook_valid stub_lib ''missing.ipynb'' (initial_world stub_files)) =
     Raise FileNotFoundError \<and>
   \<not> is_validation_error FileNotFoundError \<and>
   files (initial_world stub_files) ''missing.ipynb'' = Inl FileNotFoundError \<and>
   fst (validate stub_lib ''missing.ipynb'' (initial_world stub_files)) = Raise FileNotFoundError \<and>
   printed (initial_world stub_files)
     (snd (validate stub_lib ''missing.ipynb'' (initial_world stub_files))) = [] \<and>
   exit_status (fst (validate stub_lib ''missing.ipynb'' (initial_world stub_files))) \<noteq> 0"
proof -
  have h: "fst (is_notebook_valid stub_lib ''missing.ipynb'' (initial_world stub_files)) =
      Raise FileNotFoundError"
    using inv_open_failed [OF stub_missing_file] by simp
  show ?thesis
    using validate_catches_only_validation_error
      [of stub_lib "''missing.ipynb''" "initial_world stub_files" FileNotFoundError]
      h stub_missing_file
    by auto
qed

text \<open>
  C4. On every path and in every world the calls of \<open>is_notebook_valid\<close> follow the
  prescribed sequence: open the path, read the file object with \<open>NO_CONVERT\<close>, close it,
  and run the schema check on the document read, with the version found under the
  document's key \<^verbatim>\<open>nbformat\<close>. A step that raises ends the run with that exception; no
  step is repeated and nothing else is called. When the first three steps succeed, all four
  calls are made, and the result is the result of the schema check.
\<close>

theorem is_notebook_valid_linear_sequence:
  "linear_sequence path (new_calls s (snd (is_notebook_valid lib path s))) \<and>
   fst (is_notebook_valid lib path s) = linear_result lib (files s path) (urandom s) \<and>
   (files s path = Inr content \<and> nb_read lib content NO_CONVERT (urandom s) = Inr nb \<and>
    map_of nb ''nbformat'' = Some version \<longrightarrow>
      new_calls s (snd (is_notebook_valid lib path s)) =
        [CallOpen path, CallRead (fresh_handle s) NO_CONVERT, CallClose (fresh_handle s),
         CallValidate nb version])"
proof (intro conjI impI)
  show "linear_sequence path (new_calls s (snd (is_notebook_valid lib path s)))"
    by (cases rule: inv_cases [of s path lib])
      (simp_all add: after_read_calls after_check_calls open_failed_calls)
  show "fst (is_notebook_valid lib path s) = linear_result lib (files s path) (urandom s)"
    by (rule inv_result)
  assume "files s path = Inr content \<and> nb_read lib content NO_CONVERT (urandom s) = Inr nb \<and>
    map_of nb ''nbformat'' = Some version"
  then show "new_calls s (snd (is_notebook_valid lib path s)) =
        [CallOpen path, CallRead (fresh_handle s) NO_CONVERT, CallClose (fresh_handle s),
         CallValidate nb version]"
    using inv_checked [of s path content lib nb version] by (simp add: after_check_calls)
qed

theorem is_notebook_valid_linear_sequence_witness:
  "files (initial_world stub_files) ''good.ipynb'' = Inr good_ipynb \<and>
   nb_read stub_lib good_ipynb NO_CONVERT (urandom (initial_world stub_files)) = Inr good_nb \<and>
   map_of good_nb ''nbformat'' = Some (JInt 4) \<and>
   new_calls (initial_world stub_files)
     (snd (is_notebook_valid stub_lib ''good.ipynb'' (initial_world stub_files))) =
     [CallOpen ''good.ipynb'', CallRead 1 NO_CONVERT, CallClose 1, CallValidate good_nb (JInt 4)]"
  using is_notebook_valid_linear_sequence
    [of "''good.ipynb''" "initial_world stub_files" stub_lib good_ipynb good_nb "JInt 4"]
    stub_good_file stub_good_read stub_good_version
  by (simp add: initial_fresh_handle)

text \<open>
  C5. \<open>is_notebook_valid\<close> leaves no file open: whatever way it ends, the open files
  afterwards are those that were open before. When the file could be opened, its file
  object is closed right after the read, whether the read returned a document or raised,
  and before anything else is called.
\<close>

theorem is_notebook_valid_closes_file:
  "open_files (snd (is_notebook_valid lib path s)) = open_files s \<and>
   (files s path = Inr content \<longrightarrow>
      take 3 (new_calls s (snd (is_notebook_valid lib path s))) =
        [CallOpen path, CallRead (fresh_handle s) NO_CONVERT, CallClose (fresh_handle s)] \<and>
      fresh_handle s \<notin> fst ` set (open_files (snd (is_notebook_valid lib path s))))"
proof (intro conjI impI)
  show o: "open_files (snd (is_notebook_valid lib path s)) = open_files s"
    by (rule inv_open_files)
  assume f: "files s path = Inr content"
  show "take 3 (new_calls s (snd (is_notebook_valid lib path s))) =
        [CallOpen path, CallRead (fresh_handle s) NO_CONVERT, CallClose (fresh_handle s)]"
    using f by (cases rule: inv_cases [of s path lib])
      (simp_all add: after_read_calls after_check_calls)
  show "fresh_handle s \<notin> fst ` set (open_files (snd (is_notebook_valid lib path s)))"
    unfolding o using fresh_handle_notin [of _ _ s] by force
qed

theorem is_notebook_valid_closes_file_witness:
  "files (initial_world stub_files) ''broken.ipynb'' = Inr ''not a notebook'' \<and>
   fst (is_notebook_valid stub_lib ''broken.ipynb'' (initial_world stub_files)) =
     Raise NotJSONError \<and>
   open_files (snd (is_notebook_valid stub_lib ''broken.ipynb'' (initial_world stub_files))) = [] \<and>
   take 3 (new_calls (initial_world stub_files)
     (snd (is_notebook_valid stub_lib ''broken.ipynb'' (initial_world stub_files)))) =
     [CallOpen ''broken.ipynb'', CallRead 1 NO_CONVERT, CallClose 1]"
proof -
  have r: "fst (is_notebook_valid stub_lib ''broken.ipynb'' (initial_world stub_files)) =
      Raise NotJSONError"
    using inv_read_failed [OF stub_broken_file stub_broken_read] by simp
  have e: "open_files (initial_world stub_files) = []"
    by (simp add: initial_world_def)
  show ?thesis
    using is_notebook_valid_closes_file
      [of stub_lib "''broken.ipynb''" "initial_world stub_files" "''not a notebook''"]
      stub_broken_file r e
    by (simp add: initial_fresh_handle)
qed







text \<open>
  C8 as stated does not hold on either path. On the handled failure path the text printed
  contains the error's description as it is, and the schema check describes a violation
  over several lines: for the markdown document six lines are printed. On the success
  path the filename is printed as it is: for the valid notebook whose name contains a line
  break two lines are printed.
\<close>

theorem validate_one_line_counterexample:
  "fst (validate stub_lib ''nosource.ipynb'' (initial_world stub_files)) = Exit 1 \<and>
   line_count (printed (initial_world stub_files)
     (snd (validate stub_lib ''nosource.ipynb'' (initial_world stub_files)))) = 6 \<and>
   fst (validate stub_lib ''my\<newline>notebook.ipynb'' (initial_world stub_files)) = Exit 0 \<and>
   line_count (printed (initial_world stub_files)
     (snd (validate stub_lib ''my\<newline>notebook.ipynb'' (initial_world stub_files)))) = 2"
proof -
  have p: "printed (initial_world stub_files)
      (snd (validate stub_lib ''nosource.ipynb'' (initial_world stub_files))) =
      ''nosource.ipynb '' @ missing_source_message ''00000000'' @ [CHR 0x0A]"
    unfolding stub_nosource_run by (simp add: printed_def after_check_def initial_world_def)
  have n: "line_count ''nosource.ipynb '' = 0" "line_count ''00000000'' = 0"
    by (simp_all add: line_count_def)
  have l: "line_count (''nosource.ipynb '' @ missing_source_message ''00000000'' @ [CHR 0x0A]) = 6"
    unfolding line_count_append missing_source_message_lines n line_count_newline by simp
  have g: "is_notebook_valid stub_lib ''my\<newline>notebook.ipynb'' (initial_world stub_files) =
      (Return (),
       after_check good_nb (JInt 4) ''my\<newline>notebook.ipynb'' (initial_world stub_files))"
    using inv_checked [OF stub_newline_file stub_good_read stub_good_version]
      stub_good_check [of "Suc (urandom (initial_world stub_files))"]
    by simp
  have q: "fst (validate stub_lib ''my\<newline>notebook.ipynb'' (initial_world stub_files)) = Exit 0"
    "line_count (printed (initial_world stub_files)
      (snd (validate stub_lib ''my\<newline>notebook.ipynb'' (initial_world stub_files)))) = 2"
    using validate_returned [OF g]
    by (simp_all add: printed_def after_check_def initial_world_def line_count_def)
  show ?thesis
    using p l q by (simp add: stub_nosource_run)
qed

text \<open>
  C8, amended. On the success path and on the handled validation-failure path \<open>validate\<close>
  prints once: the filename and \<^verbatim>\<open>is valid\<close>, or the filename and the error's text, ended
  by one newline. The number of lines printed is one more than the number of line breaks in
  the filename and, on the failure path, in the error's text; it is exactly one line when
  neither contains a line break.
\<close>

theorem validate_one_print:
  "(fst (is_notebook_valid lib filename s) = Return () \<longrightarrow>
      fst (validate lib filename s) = Exit 0 \<and>
      printed s (snd (validate lib filename s)) = filename @ '' is valid'' @ [CHR 0x0A] \<and>
      line_count (printed s (snd (validate lib filename s))) = Suc (line_count filename) \<and>
      (line_count (printed s (snd (validate lib filename s))) = 1) =
        (line_count filename = 0)) \<and>
   (fst (is_notebook_valid lib filename s) = Raise (ValidationError msg) \<longrightarrow>
      fst (validate lib filename s) = Exit 1 \<and>
      printed s (snd (validate lib filename s)) = filename @ '' '' @ msg @ [CHR 0x0A] \<and>
      line_count (printed s (snd (validate lib filename s))) =
        Suc (line_count filename + line_count msg) \<and>
      (line_count (printed s (snd (validate lib filename s))) = 1) =
        (line_count filename = 0 \<and> line_count msg = 0))"
proof (intro conjI impI)
  obtain r t where rt: "is_notebook_valid lib filename s = (r, t)"
    by (cases "is_notebook_valid lib filename s")
  have out: "stdout t = stdout s" using inv_stdout [of lib filename s] rt by simp
  {
    assume "fst (is_notebook_valid lib filename s) = Return ()"
    with rt have "is_notebook_valid lib filename s = (Return (), t)" by simp
    from validate_returned [OF this] out
    have v: "fst (validate lib filename s) = Exit 0"
      and p: "printed s (snd (validate lib filename s)) = filename @ '' is valid'' @ [CHR 0x0A]"
      by (simp_all add: printed_def)
    show "fst (validate lib filename s) = Exit 0" by (rule v)
    show "printed s (snd (validate lib filename s)) = filename @ '' is valid'' @ [CHR 0x0A]"
      by (rule p)
    show c: "line_count (printed s (snd (validate lib filename s))) = Suc (line_count filename)"
      unfolding p by (simp add: line_count_def)
    show "(line_count (printed s (snd (validate lib filename s))) = 1) =
        (line_count filename = 0)"
      unfolding c by simp
  }
  {
    assume "fst (is_notebook_valid lib filename s) = Raise (ValidationError msg)"
    with rt have "is_notebook_valid lib filename s = (Raise (ValidationError msg), t)" by simp
    from validate_caught [OF this] out
    have v: "fst (validate lib filename s) = Exit 1"
      and p: "printed s (snd (validate lib filename s)) = filename @ '' '' @ msg @ [CHR 0x0A]"
      by (simp_all add: printed_def)
    show "fst (validate lib filename s) = Exit 1" by (rule v)
    show "printed s (snd (validate lib filename s)) = filename @ '' '' @ msg @ [CHR 0x0A]"
      by (rule p)
    show c: "line_count (printed s (snd (validate lib filename s))) =
        Suc (line_count filename + line_count msg)"
      unfolding p by (simp add: line_count_def)
    show "(line_count (printed s (snd (validate lib filename s))) = 1) =
        (line_count filename = 0 \<and> line_count msg = 0)"
      unfolding c by simp
  }
qed

theorem validate_one_print_witness:
  "fst (is_notebook_valid stub_lib ''good.ipynb'' (initial_world stub_files)) = Return () \<and>
   line_count (printed (initial_world stub_files)
     (snd (validate stub_lib ''good.ipynb'' (initial_world stub_files)))) = 1 \<and>
   fst (is_notebook_valid stub_lib ''bad.ipynb'' (initial_world stub_files)) =
     Raise (ValidationError missing_key_message) \<and>
   line_count (printed (initial_world stub_files)
     (snd (validate stub_lib ''bad.ipynb'' (initial_world stub_files)))) = 1"
proof -
  have g: "fst (is_notebook_valid stub_lib ''good.ipynb'' (initial_world stub_files)) = Return ()"
    by (simp add: stub_good_inv)
  have b: "fst (is_notebook_valid stub_lib ''bad.ipynb'' (initial_world stub_files)) =
      Raise (ValidationError missing_key_message)"
    by (simp add: stub_bad_inv)
  have n: "line_count ''good.ipynb'' = 0" "line_count ''bad.ipynb'' = 0"
    "line_count missing_key_message = 0"
    by (simp_all add: line_count_def missing_key_message_def)
  have "line_count (printed (initial_world stub_files)
      (snd (validate stub_lib ''good.ipynb'' (initial_world stub_files)))) =
      Suc (line_count ''good.ipynb'')"
    using validate_one_print [of stub_lib "''good.ipynb''" "initial_world stub_files"] g
    by blast
  moreover have "line_count (printed (initial_world stub_files)
      (snd (validate stub_lib ''bad.ipynb'' (initial_world stub_files)))) =
      Suc (line_count ''bad.ipynb'' + line_count missing_key_message)"
    using validate_one_print [of stub_lib "''bad.ipynb''" "initial_world stub_files"
        missing_key_message] b
    by blast
  ultimately show ?thesis
    using g b by (simp only: n) simp
qed

section \<open>The upload demo\<close>

text \<open>
  C9. With an empty \<^verbatim>\<open>value\<close>, \<open>read_uploaded_file\<close> prints the warning and goes on to
  \<^verbatim>\<open>uploader.value[0]\<close>, which raises \<^verbatim>\<open>IndexError\<close>: nothing else is printed, no library
  call is made and no data is returned. The warning never stops the function: with more
  than one uploaded file it goes on with the first one.
\<close>

theorem read_uploaded_file_empty:
  "read_uploaded_file read_excel \<lparr>uploader_value = []\<rparr> s =
     (Raise IndexError,
      s\<lparr>stdout := stdout s @ ''This example code only works for a single uploaded file'' @
          [CHR 0x0A]\<rparr>) \<and>
   new_calls s (snd (read_uploaded_file read_excel \<lparr>uploader_value = []\<rparr> s)) = [] \<and>
   fst (read_uploaded_file read_excel \<lparr>uploader_value = f # g # rest\<rparr> s) =
     fst (read_uploaded_file read_excel \<lparr>uploader_value = [f]\<rparr> s)"
  by (simp add: read_uploaded_file_def io_bind_def print_def index0_def io_raise_def
      io_return_def new_calls_def getitem_def bytes_io_def pd_read_excel_def
      split: option.split pyval.split result.split)

section \<open>The server extension\<close>

text \<open>
  C10. \<open>load_jupyter_server_extension\<close> does the same for any two arguments: its only call
  is one \<^verbatim>\<open>Popen\<close> of the fixed command line, and it returns \<^verbatim>\<open>None\<close> as soon as the
  process is started (or passes on the exception of \<^verbatim>\<open>Popen\<close>), without waiting for the
  process.
\<close>

theorem load_jupyter_server_extension_ignores_serverapp:
  "load_jupyter_server_extension spawn a s = load_jupyter_server_extension spawn b s \<and>
   new_calls s (snd (load_jupyter_server_extension spawn a s)) =
     [CallPopen [''bokeh'', ''serve'', ''bokeh-app'', ''--allow-websocket-origin=*'']] \<and>
   fst (load_jupyter_server_extension spawn a s) =
     (case spawn [''bokeh'', ''serve'', ''bokeh-app'', ''--allow-websocket-origin=*''] of
        Inl e \<Rightarrow> Raise e
      | Inr pid \<Rightarrow> Return ())"
  by (simp add: load_jupyter_server_extension_def io_bind_def Popen_def io_return_def
      new_calls_def log_call_def split: sum.split)

end
